theory Spec2Isabelle
  imports Complex_Main "HOL-Library.Sublist" "HOL-Library.Monad_Syntax"
begin

section \<open>JavaScript strings, numbers and the two regular expressions\<close>

text \<open>
  A JavaScript string is modelled as a \<^typ>\<open>string\<close>: a list of code units, here the
  code units 0..255. Within that range the regular-expression class \<^verbatim>\<open>\d\<close> is the ten
  ASCII digits, \<^verbatim>\<open>\s\<close> (and what \<^verbatim>\<open>trim\<close> strips) is TAB, LF, VT, FF, CR, space
  and the no-break space, and \<^verbatim>\<open>[a-f\d]\<close> under the flag \<^verbatim>\<open>i\<close> is the 22 hexadecimal
  digits of both cases.
\<close>

datatype js_error = TypeError | SyntaxError | PersistenceError

definition is_digit :: "char \<Rightarrow> bool" where
  "is_digit c = (c \<in> set ''0123456789'')"

definition is_space :: "char \<Rightarrow> bool" where
  "is_space c = ((of_char c :: nat) \<in> {9, 10, 11, 12, 13, 32, 160})"

definition is_hex_digit :: "char \<Rightarrow> bool" where
  "is_hex_digit c = (c \<in> set ''0123456789abcdefABCDEF'')"

definition is_lower_hex_digit :: "char \<Rightarrow> bool" where
  "is_lower_hex_digit c = (c \<in> set ''0123456789abcdef'')"

text \<open>\<^verbatim>\<open>String.prototype.includes\<close>: the needle occurs as a contiguous run.\<close>

fun js_includes :: "string \<Rightarrow> string \<Rightarrow> bool" where
  "js_includes [] k = (k = [])"
| "js_includes (c # cs) k = (prefix k (c # cs) \<or> js_includes cs k)"

text \<open>\<^verbatim>\<open>String.prototype.trim\<close>.\<close>

definition trim :: "string \<Rightarrow> string" where
  "trim s = rev (dropWhile is_space (rev (dropWhile is_space s)))"

text \<open>\<^verbatim>\<open>parseInt(x)\<close> on a run of decimal digits, \<^verbatim>\<open>parseInt(x, 16)\<close> on a run of
  hexadecimal digits.\<close>

definition digit_val :: "char \<Rightarrow> nat" where
  "digit_val c = of_char c - 48"

definition parseInt :: "string \<Rightarrow> nat" where
  "parseInt x = foldl (\<lambda>a c. 10 * a + digit_val c) 0 x"

definition hex_digit_val :: "char \<Rightarrow> nat" where
  "hex_digit_val c =
     (if is_digit c then of_char c - 48
      else if c \<in> set ''abcdef'' then of_char c - 87
      else of_char c - 55)"

definition parseInt16 :: "string \<Rightarrow> nat" where
  "parseInt16 x = foldl (\<lambda>a c. 16 * a + hex_digit_val c) 0 x"

text \<open>
  \<^verbatim>\<open>Number.prototype.toString(16)\<close> on a non-negative integer. The digits are exact
  for every integer a double represents exactly; from \<open>2^53\<close> on the number that
  \<^verbatim>\<open>parseInt\<close> returns is a rounded double (or \<^verbatim>\<open>Infinity\<close>), whose rendering is not
  modelled: it is the parameter \<open>big\<close> of every function that reaches it.
\<close>

definition hex_char :: "nat \<Rightarrow> char" where
  "hex_char d = ''0123456789abcdef'' ! d"

fun toString16 :: "nat \<Rightarrow> string" where
  "toString16 n = (if n < 16 then [hex_char n] else toString16 (n div 16) @ [hex_char (n mod 16)])"

declare toString16.simps [simp del]

definition number_toString16 :: "(nat \<Rightarrow> string) \<Rightarrow> nat \<Rightarrow> string" where
  "number_toString16 big n = (if n < 2 ^ 53 then toString16 n else big n)"

text \<open>
  The search \<^verbatim>\<open>rgb.match(/rgba?\((\d+),\s*(\d+),\s*(\d+)/)\<close>. At one start position the
  match is deterministic: a greedy \<^verbatim>\<open>\d+\<close> or \<^verbatim>\<open>\s*\<close> is followed by a character outside
  its class, and \<^verbatim>\<open>a?\<close> by \<^verbatim>\<open>(\<close>, so backtracking never finds a second way.
  \<open>match_rgb\<close> tries the start positions from left to right.
\<close>

definition expect :: "string \<Rightarrow> string \<Rightarrow> string option" where
  "expect lit s = (if prefix lit s then Some (drop (length lit) s) else None)"

definition digits1 :: "string \<Rightarrow> (string \<times> string) option" where
  "digits1 s = (if takeWhile is_digit s = [] then None
                else Some (takeWhile is_digit s, dropWhile is_digit s))"

definition match_rgb_at :: "string \<Rightarrow> (string \<times> string \<times> string) option" where
  "match_rgb_at s = do {
     s1 \<leftarrow> expect ''rgb'' s;
     s2 \<leftarrow> expect ''('' (case expect ''a'' s1 of Some t \<Rightarrow> t | None \<Rightarrow> s1);
     (m1, s3) \<leftarrow> digits1 s2;
     s4 \<leftarrow> expect '','' s3;
     (m2, s5) \<leftarrow> digits1 (dropWhile is_space s4);
     s6 \<leftarrow> expect '','' s5;
     (m3, s7) \<leftarrow> digits1 (dropWhile is_space s6);
     Some (m1, m2, m3)
   }"

fun match_rgb :: "string \<Rightarrow> (string \<times> string \<times> string) option" where
  "match_rgb [] = match_rgb_at []"
| "match_rgb (c # cs) =
     (case match_rgb_at (c # cs) of Some m \<Rightarrow> Some m | None \<Rightarrow> match_rgb cs)"

section \<open>DesignAnalyzerService: colours\<close>

definition hex :: "(nat \<Rightarrow> string) \<Rightarrow> string \<Rightarrow> string" where
  "hex big x = (let h = number_toString16 big (parseInt x)
                in if length h = 1 then CHR ''0'' # h else h)"

definition rgbToHex :: "(nat \<Rightarrow> string) \<Rightarrow> string \<Rightarrow> string" where
  "rgbToHex big rgb =
     (if prefix ''#'' rgb then rgb
      else case match_rgb rgb of
             None \<Rightarrow> ''#000000''
           | Some (m1, m2, m3) \<Rightarrow> ''#'' @ hex big m1 @ hex big m2 @ hex big m3)"

record rgb =
  rgb_r :: nat
  rgb_g :: nat
  rgb_b :: nat

text \<open>
  \<^verbatim>\<open>/^#?([a-f\d]{2})([a-f\d]{2})([a-f\d]{2})$/i.exec(hex)\<close>: an optional \<^verbatim>\<open>#\<close>, then
  exactly six hexadecimal digits up to the end of the input; \<open>None\<close> is the \<^verbatim>\<open>null\<close>
  the source returns when there is no match.
\<close>

definition hexToRgb :: "string \<Rightarrow> rgb option" where
  "hexToRgb h =
     (let body = (if prefix ''#'' h then drop 1 h else h)
      in if length body = 6 \<and> list_all is_hex_digit body
         then Some \<lparr> rgb_r = parseInt16 (take 2 body),
                     rgb_g = parseInt16 (take 2 (drop 2 body)),
                     rgb_b = parseInt16 (take 2 (drop 4 body)) \<rparr>
         else None)"

text \<open>
  \<open>categorizeColor\<close> reads \<^verbatim>\<open>rgb.r\<close> of what \<open>hexToRgb\<close> returned without a check:
  on \<^verbatim>\<open>null\<close> that is a TypeError.
\<close>

definition brightness :: "rgb \<Rightarrow> rat" where
  "brightness c = of_nat (rgb_r c * 299 + rgb_g c * 587 + rgb_b c * 114) / 1000"

definition categorizeColor :: "string \<Rightarrow> js_error + string" where
  "categorizeColor h =
     (case hexToRgb h of
        None \<Rightarrow> Inl TypeError
      | Some c \<Rightarrow>
          Inr (if brightness c > 200 then ''background''
               else if brightness c < 50 then ''text''
               else ''accent''))"

section \<open>DesignAnalyzerService: fonts\<close>

definition serif :: "string list" where
  "serif = [''Times'', ''Georgia'', ''Garamond'', ''Serif'']"

definition sansSerif :: "string list" where
  "sansSerif = [''Arial'', ''Helvetica'', ''Sans'', ''Roboto'', ''Open Sans'']"

definition monospace :: "string list" where
  "monospace = [''Courier'', ''Monaco'', ''Consolas'', ''Monospace'']"

definition categorizeFontFamily :: "string \<Rightarrow> string" where
  "categorizeFontFamily font =
     (if list_ex (\<lambda>s. js_includes font s) serif then ''serif''
      else if list_ex (\<lambda>m. js_includes font m) monospace then ''monospace''
      else ''sans-serif'')"

definition getFontFallback :: "string \<Rightarrow> string" where
  "getFontFallback font =
     (let category = categorizeFontFamily font
      in if category = ''serif'' then ''Georgia, serif''
         else if category = ''monospace'' then ''Courier New, monospace''
         else ''Arial, sans-serif'')"

text \<open>
  \<open>analyzeTypography\<close>: \<^verbatim>\<open>font.replace(/['"]/g, '').split(',')[0].trim()\<close> removes
  every quote character, keeps what precedes the first comma and trims it. An entry of
  the list carries a fallback; the default entry \<^verbatim>\<open>{ family: 'Arial', category:
  'sans-serif' }\<close> has no such property, which is \<open>None\<close> here.
\<close>

record font_entry =
  family :: string
  category :: string
  fallback :: "string option"

record typography =
  heading :: font_entry
  body :: font_entry
  all_fonts :: "font_entry list"

definition clean_font :: "string \<Rightarrow> string" where
  "clean_font font =
     trim (takeWhile (\<lambda>c. c \<noteq> CHR '','') (filter (\<lambda>c. c \<noteq> CHR 0x27 \<and> c \<noteq> CHR 0x22) font))"

definition process_font :: "string \<Rightarrow> font_entry" where
  "process_font font =
     (let cleaned = clean_font font
      in \<lparr> family = cleaned,
           category = categorizeFontFamily cleaned,
           fallback = Some (getFontFallback cleaned) \<rparr>)"

definition default_font :: font_entry where
  "default_font = \<lparr> family = ''Arial'', category = ''sans-serif'', fallback = None \<rparr>"

definition analyzeTypography :: "string list \<Rightarrow> typography" where
  "analyzeTypography fonts =
     (let processed = map process_font fonts
      in \<lparr> heading = (case processed of [] \<Rightarrow> default_font | f0 # _ \<Rightarrow> f0),
           body = (case processed of
                     [] \<Rightarrow> default_font
                   | [f0] \<Rightarrow> f0
                   | _ # f1 # _ \<Rightarrow> f1),
           all_fonts = processed \<rparr>)"

section \<open>DesignAnalyzerService: colour roles\<close>

record color_entry =
  original :: string
  hex_value :: string
  usage :: string

record color_analysis =
  primary :: string
  secondary :: string
  accent :: string
  all_colors :: "color_entry list"

definition process_color :: "(nat \<Rightarrow> string) \<Rightarrow> string \<Rightarrow> js_error + color_entry" where
  "process_color big color =
     (let h = rgbToHex big color
      in case categorizeColor h of
           Inl e \<Rightarrow> Inl e
         | Inr u \<Rightarrow> Inr \<lparr> original = color, hex_value = h, usage = u \<rparr>)"

text \<open>\<^verbatim>\<open>Array.prototype.map\<close> with a callback that can throw: the first throw ends it.\<close>

fun map_throwing :: "('a \<Rightarrow> js_error + 'b) \<Rightarrow> 'a list \<Rightarrow> js_error + 'b list" where
  "map_throwing f [] = Inr []"
| "map_throwing f (x # xs) =
     (case f x of
        Inl e \<Rightarrow> Inl e
      | Inr y \<Rightarrow> (case map_throwing f xs of Inl e \<Rightarrow> Inl e | Inr ys \<Rightarrow> Inr (y # ys)))"

text \<open>\<^verbatim>\<open>processed[i]?.hex || d\<close>: the default when the entry is missing or its hex string
  is empty.\<close>

definition hex_or :: "color_entry list \<Rightarrow> nat \<Rightarrow> string \<Rightarrow> string" where
  "hex_or processed i d =
     (if i < length processed \<and> hex_value (processed ! i) \<noteq> [] then hex_value (processed ! i) else d)"

definition analyzeColors :: "(nat \<Rightarrow> string) \<Rightarrow> string list \<Rightarrow> js_error + color_analysis" where
  "analyzeColors big colors =
     (case map_throwing (process_color big) colors of
        Inl e \<Rightarrow> Inl e
      | Inr processed \<Rightarrow>
          Inr \<lparr> primary = hex_or processed 0 ''#000000'',
                secondary = hex_or processed 1 ''#666666'',
                accent = hex_or processed 2 ''#0066cc'',
                all_colors = processed \<rparr>)"

section \<open>AIScraperService: product extraction\<close>

text \<open>
  The page is modelled by what cheerio answers: \<open>dom sel\<close> is the list of elements
  \<^verbatim>\<open>$(sel)\<close> selects, in document order, and an element carries the four reads the
  loop body makes of it (the text of the first name and price descendant, empty when
  there is none; the \<^verbatim>\<open>src\<close> of the first image and the \<^verbatim>\<open>href\<close> of the first
  anchor, \<open>None\<close> for \<^verbatim>\<open>undefined\<close>).
\<close>

record element =
  name_text :: string
  price_text :: string
  img_src :: "string option"
  a_href :: "string option"

type_synonym dom = "string \<Rightarrow> element list"

record product =
  p_name :: string
  p_price :: string
  p_image :: "string option"
  p_link :: "string option"

definition productSelectors :: "string list" where
  \<open>productSelectors =
     [''.product'', ''.product-item'', ''.product-card'',
      ''[itemtype*="Product"]'', ''[data-product]'']\<close>

definition product_of :: "element \<Rightarrow> product" where
  "product_of el = \<lparr> p_name = trim (name_text el), p_price = trim (price_text el),
                      p_image = img_src el, p_link = a_href el \<rparr>"

fun try_selectors :: "dom \<Rightarrow> string list \<Rightarrow> product list" where
  "try_selectors d [] = []"
| "try_selectors d (selector # rest) =
     (let items = take 10 (d selector)
      in if length items > 0 then map product_of items else try_selectors d rest)"

definition extractProducts :: "dom \<Rightarrow> product list" where
  "extractProducts d = try_selectors d productSelectors"

text \<open>The order of patterns as the specification lists it, for comparison.\<close>

definition spec_productSelectors :: "string list" where
  \<open>spec_productSelectors =
     [''[itemtype*="Product"]'', ''.product'', ''.product-item'', ''.product-card'',
      ''[data-product]'']\<close>

section \<open>DesignAnalyzerService: layout, products, recommendations\<close>

record layout_signals =
  hasHeader :: bool
  hasNav :: bool
  hasMainContent :: bool
  hasFooter :: bool
  headerHeight :: nat
  footerHeight :: nat

record design_signals =
  colors :: "string list"
  fonts :: "string list"
  layout :: layout_signals
  title :: string

text \<open>Of the scraped site, the fields the analysis reads.\<close>

record scraped_site =
  url :: string
  design :: design_signals
  products :: "product list"

record layout_structure =
  header :: bool
  navigation :: bool
  mainContent :: bool
  footer :: bool

record layout_recommendations =
  mobileFirst :: bool
  responsiveGrid :: string
  breakpoint_mobile :: nat
  breakpoint_tablet :: nat
  breakpoint_desktop :: nat

record layout_analysis =
  struct :: layout_structure
  dim_headerHeight :: nat
  dim_footerHeight :: nat
  recommendations :: layout_recommendations

definition analyzeLayout :: "layout_signals \<Rightarrow> layout_analysis" where
  "analyzeLayout l =
     \<lparr> struct = \<lparr> header = hasHeader l, navigation = hasNav l,
                       mainContent = hasMainContent l, footer = hasFooter l \<rparr>,
       dim_headerHeight = headerHeight l,
       dim_footerHeight = footerHeight l,
       recommendations = \<lparr> mobileFirst = True, responsiveGrid = ''flexbox'',
                             breakpoint_mobile = 768, breakpoint_tablet = 1024,
                             breakpoint_desktop = 1440 \<rparr> \<rparr>"

record product_summary =
  count :: nat
  hasImages :: bool
  hasPrices :: bool
  nameField :: string
  priceField :: string
  imageField :: string
  linkField :: string
  samples :: "product list"

text \<open>A string is truthy when it is not empty, \<^verbatim>\<open>undefined\<close> is falsy.\<close>

definition truthy :: "string option \<Rightarrow> bool" where
  "truthy v = (case v of None \<Rightarrow> False | Some s \<Rightarrow> s \<noteq> [])"

definition analyzeProductStructure :: "product list \<Rightarrow> product_summary option" where
  "analyzeProductStructure ps =
     (if length ps = 0 then None
      else Some \<lparr> count = length ps,
                  hasImages = list_ex (\<lambda>p. truthy (p_image p)) ps,
                  hasPrices = list_ex (\<lambda>p. p_price p \<noteq> []) ps,
                  nameField = ''name'', priceField = ''price'',
                  imageField = ''image'', linkField = ''link'',
                  samples = take 3 ps \<rparr>)"

text \<open>
  The completion service is outside the program: a call either throws or returns a
  completion whose choices carry a message content, a string or \<^verbatim>\<open>null\<close>.
  \<^verbatim>\<open>JSON.parse\<close> is the parameter \<open>parse\<close>, \<open>None\<close> when it throws a SyntaxError;
  applied to \<^verbatim>\<open>null\<close> it parses the text \<^verbatim>\<open>null\<close>. Reading \<^verbatim>\<open>choices[0].message\<close>
  of an empty list of choices is a TypeError. Everything between \<^verbatim>\<open>try\<close> and
  \<^verbatim>\<open>catch\<close> that throws ends in the fixed object. The prompt is built from fields
  that a scraped site always has and does not throw.
\<close>

datatype json =
  JNull | JBool bool | JNum rat | JStr string | JArr "json list" | JObj "(string \<times> json) list"

datatype completion = CallThrows | Completion "string option list"

definition fallback_recommendations :: json where
  "fallback_recommendations = JObj
     [ (''improvements'', JArr [JStr ''Modern design patterns'', JStr ''Better color contrast'',
                                JStr ''Clear CTAs'']),
       (''ux'', JArr [JStr ''Simplified navigation'', JStr ''Faster load times'',
                      JStr ''Better mobile experience'']),
       (''mobile'', JArr [JStr ''Touch-friendly buttons'', JStr ''Responsive images'',
                          JStr ''Optimized fonts'']),
       (''conversion'', JArr [JStr ''Clear value proposition'', JStr ''Trust badges'',
                              JStr ''Simplified checkout'']) ]"

definition getAIRecommendations ::
    "(string \<Rightarrow> json option) \<Rightarrow> scraped_site \<Rightarrow> completion \<Rightarrow> json" where
  "getAIRecommendations parse scrapedData outcome =
     (case outcome of
        CallThrows \<Rightarrow> fallback_recommendations
      | Completion [] \<Rightarrow> fallback_recommendations
      | Completion (content # _) \<Rightarrow>
          (case parse (case content of None \<Rightarrow> ''null'' | Some s \<Rightarrow> s) of
             None \<Rightarrow> fallback_recommendations
           | Some j \<Rightarrow> j))"

record analysis_core =
  a_colors :: color_analysis
  a_typography :: typography
  a_layout :: layout_analysis
  a_products :: "product_summary option"

record design_analysis = analysis_core +
  aiRecommendations :: json

text \<open>
  \<open>analyzeDesign\<close> catches what its steps throw only to log and throw it again, so an
  error of \<open>analyzeColors\<close> is its own result. The recommendation call comes last and
  is not reached then.
\<close>

definition analyzeDesign ::
    "(nat \<Rightarrow> string) \<Rightarrow> (string \<Rightarrow> json option) \<Rightarrow> scraped_site \<Rightarrow> completion
       \<Rightarrow> js_error + design_analysis" where
  "analyzeDesign big parse scrapedData outcome =
     (case analyzeColors big (colors (design scrapedData)) of
        Inl e \<Rightarrow> Inl e
      | Inr c \<Rightarrow>
          Inr \<lparr> a_colors = c,
                a_typography = analyzeTypography (fonts (design scrapedData)),
                a_layout = analyzeLayout (layout (design scrapedData)),
                a_products = analyzeProductStructure (products scrapedData),
                aiRecommendations = getAIRecommendations parse scrapedData outcome \<rparr>)"

section \<open>StoreBuilderService: the catalog\<close>

text \<open>
  A catalog entry has an id, a name, a description, a preview, features and a
  structure (header, optional hero, sections, footer). It has no \<^verbatim>\<open>customizations\<close>
  property and its structure has no \<^verbatim>\<open>layout\<close> property.
\<close>

record catalog_entry =
  t_id :: string
  t_name :: string
  t_description :: string
  t_preview :: string
  t_features :: "string list"
  header_type :: string
  header_components :: "string list"
  hero :: "(string \<times> string) option"
  sections :: "string list"
  footer_columns :: nat
  footer_components :: "string list"

definition modern_template :: catalog_entry where
  "modern_template =
     \<lparr> t_id = ''modern'', t_name = ''Modern Store'',
       t_description = ''Clean and modern e-commerce template'',
       t_preview = ''/templates/modern/preview.jpg'',
       t_features = [''Responsive'', ''SEO Optimized'', ''Fast Loading''],
       header_type = ''sticky'',
       header_components = [''logo'', ''navigation'', ''search'', ''cart''],
       hero = Some (''slider'', ''600px''),
       sections = [''featured-products'', ''categories'', ''testimonials'', ''newsletter''],
       footer_columns = 4,
       footer_components = [''about'', ''links'', ''contact'', ''social''] \<rparr>"

definition minimal_template :: catalog_entry where
  "minimal_template =
     \<lparr> t_id = ''minimal'', t_name = ''Minimal Store'',
       t_description = ''Simple and elegant design'',
       t_preview = ''/templates/minimal/preview.jpg'',
       t_features = [''Minimalist'', ''Typography Focus'', ''White Space''],
       header_type = ''simple'',
       header_components = [''logo'', ''navigation'', ''cart''],
       hero = None,
       sections = [''products-grid'', ''about'', ''contact''],
       footer_columns = 2,
       footer_components = [''copyright'', ''social''] \<rparr>"

text \<open>The map \<^verbatim>\<open>this.templates\<close> once the constructor has run \<open>loadTemplates\<close>.\<close>

definition loadTemplates :: "string \<rightharpoonup> catalog_entry" where
  "loadTemplates = Map.empty(''modern'' \<mapsto> modern_template, ''minimal'' \<mapsto> minimal_template)"

section \<open>StoreBuilderService: synthesis\<close>

definition selectBaseTemplate :: "'a analysis_core_scheme \<Rightarrow> string" where
  "selectBaseTemplate analysis =
     (if header (struct (a_layout analysis)) \<and> footer (struct (a_layout analysis))
      then ''modern'' else ''minimal'')"

text \<open>A component object: its \<^verbatim>\<open>type\<close> and the properties that kind of component has.\<close>

record component =
  c_type :: string
  c_columns :: "nat option"
  c_showPrice :: "bool option"
  c_showImage :: "bool option"
  c_style :: "string option"
  c_position :: "string option"

definition product_grid :: "bool \<Rightarrow> bool \<Rightarrow> component" where
  "product_grid prices images =
     \<lparr> c_type = ''product-grid'', c_columns = Some 4, c_showPrice = Some prices,
       c_showImage = Some images, c_style = None, c_position = None \<rparr>"

definition navigation_component :: component where
  "navigation_component =
     \<lparr> c_type = ''navigation'', c_columns = None, c_showPrice = None, c_showImage = None,
       c_style = Some ''horizontal'', c_position = Some ''header'' \<rparr>"

definition search_component :: component where
  "search_component =
     \<lparr> c_type = ''search'', c_columns = None, c_showPrice = None, c_showImage = None,
       c_style = Some ''inline'', c_position = Some ''header'' \<rparr>"

definition cart_component :: component where
  "cart_component =
     \<lparr> c_type = ''cart'', c_columns = None, c_showPrice = None, c_showImage = None,
       c_style = Some ''icon'', c_position = Some ''header'' \<rparr>"

definition selectComponents :: "'a analysis_core_scheme \<Rightarrow> component list" where
  "selectComponents analysis =
     (let components0 = [];
          components1 =
            (case a_products analysis of
               None \<Rightarrow> components0
             | Some ps \<Rightarrow>
                 if count ps > 0
                 then components0 @ [product_grid (hasPrices ps) (hasImages ps)]
                 else components0);
          components2 =
            (if navigation (struct (a_layout analysis))
             then components1 @ [navigation_component]
             else components1);
          components3 = components2 @ [search_component]
      in components3 @ [cart_component])"

text \<open>A template literal renders \<^verbatim>\<open>undefined\<close> as the nine letters.\<close>

definition js_string :: "string option \<Rightarrow> string" where
  "js_string v = (case v of None \<Rightarrow> ''undefined'' | Some s \<Rightarrow> s)"

text \<open>The fixed rules of the stylesheet, from the line after the last custom property on.\<close>

definition css_rules :: string where
  \<open>css_rules = concat
     [ ''      }\<newline>'',
       ''\<newline>'',
       ''      * {\<newline>'',
       ''        margin: 0;\<newline>'',
       ''        padding: 0;\<newline>'',
       ''        box-sizing: border-box;\<newline>'',
       ''      }\<newline>'',
       ''\<newline>'',
       ''      body {\<newline>'',
       ''        font-family: var(--font-body);\<newline>'',
       ''        color: var(--color-text);\<newline>'',
       ''        background-color: var(--color-background);\<newline>'',
       ''        line-height: 1.6;\<newline>'',
       ''      }\<newline>'',
       ''\<newline>'',
       ''      h1, h2, h3, h4, h5, h6 {\<newline>'',
       ''        font-family: var(--font-heading);\<newline>'',
       ''        line-height: 1.2;\<newline>'',
       ''        margin-bottom: 1rem;\<newline>'',
       ''      }\<newline>'',
       ''\<newline>'',
       ''      .container {\<newline>'',
       ''        max-width: 1200px;\<newline>'',
       ''        margin: 0 auto;\<newline>'',
       ''        padding: 0 20px;\<newline>'',
       ''      }\<newline>'',
       ''\<newline>'',
       ''      /* Header */\<newline>'',
       ''      .header {\<newline>'',
       ''        background: var(--color-background);\<newline>'',
       ''        border-bottom: 1px solid #eee;\<newline>'',
       ''        padding: 1rem 0;\<newline>'',
       ''        position: sticky;\<newline>'',
       ''        top: 0;\<newline>'',
       ''        z-index: 100;\<newline>'',
       ''      }\<newline>'',
       ''\<newline>'',
       ''      .header-content {\<newline>'',
       ''        display: flex;\<newline>'',
       ''        justify-content: space-between;\<newline>'',
       ''        align-items: center;\<newline>'',
       ''      }\<newline>'',
       ''\<newline>'',
       ''      /* Navigation */\<newline>'',
       ''      .nav {\<newline>'',
       ''        display: flex;\<newline>'',
       ''        gap: 2rem;\<newline>'',
       ''      }\<newline>'',
       ''\<newline>'',
       ''      .nav a {\<newline>'',
       ''        color: var(--color-text);\<newline>'',
       ''        text-decoration: none;\<newline>'',
       ''        transition: color 0.3s;\<newline>'',
       ''      }\<newline>'',
       ''\<newline>'',
       ''      .nav a:hover {\<newline>'',
       ''        color: var(--color-primary);\<newline>'',
       ''      }\<newline>'',
       ''\<newline>'',
       ''      /* Product Grid */\<newline>'',
       ''      .product-grid {\<newline>'',
       ''        display: grid;\<newline>'',
       ''        grid-template-columns: repeat(auto-fill, minmax(250px, 1fr));\<newline>'',
       ''        gap: 2rem;\<newline>'',
       ''        padding: 2rem 0;\<newline>'',
       ''      }\<newline>'',
       ''\<newline>'',
       ''      .product-card {\<newline>'',
       ''        background: white;\<newline>'',
       ''        border-radius: 8px;\<newline>'',
       ''        overflow: hidden;\<newline>'',
       ''        transition: transform 0.3s, box-shadow 0.3s;\<newline>'',
       ''      }\<newline>'',
       ''\<newline>'',
       ''      .product-card:hover {\<newline>'',
       ''        transform: translateY(-5px);\<newline>'',
       ''        box-shadow: 0 5px 20px rgba(0,0,0,0.1);\<newline>'',
       ''      }\<newline>'',
       ''\<newline>'',
       ''      .product-image {\<newline>'',
       ''        width: 100%;\<newline>'',
       ''        height: 300px;\<newline>'',
       ''        object-fit: cover;\<newline>'',
       ''      }\<newline>'',
       ''\<newline>'',
       ''      .product-info {\<newline>'',
       ''        padding: 1rem;\<newline>'',
       ''      }\<newline>'',
       ''\<newline>'',
       ''      .product-name {\<newline>'',
       ''        font-size: 1.1rem;\<newline>'',
       ''        margin-bottom: 0.5rem;\<newline>'',
       ''      }\<newline>'',
       ''\<newline>'',
       ''      .product-price {\<newline>'',
       ''        color: var(--color-primary);\<newline>'',
       ''        font-size: 1.2rem;\<newline>'',
       ''        font-weight: bold;\<newline>'',
       ''      }\<newline>'',
       ''\<newline>'',
       ''      /* Buttons */\<newline>'',
       ''      .btn {\<newline>'',
       ''        display: inline-block;\<newline>'',
       ''        padding: 0.75rem 1.5rem;\<newline>'',
       ''        background: var(--color-primary);\<newline>'',
       ''        color: white;\<newline>'',
       ''        text-decoration: none;\<newline>'',
       ''        border-radius: 4px;\<newline>'',
       ''        transition: background 0.3s;\<newline>'',
       ''        border: none;\<newline>'',
       ''        cursor: pointer;\<newline>'',
       ''      }\<newline>'',
       ''\<newline>'',
       ''      .btn:hover {\<newline>'',
       ''        background: var(--color-secondary);\<newline>'',
       ''      }\<newline>'',
       ''\<newline>'',
       ''      /* Footer */\<newline>'',
       ''      .footer {\<newline>'',
       ''        background: #333;\<newline>'',
       ''        color: white;\<newline>'',
       ''        padding: 3rem 0 1rem;\<newline>'',
       ''        margin-top: 4rem;\<newline>'',
       ''      }\<newline>'',
       ''\<newline>'',
       ''      .footer-content {\<newline>'',
       ''        display: grid;\<newline>'',
       ''        grid-template-columns: repeat(auto-fit, minmax(250px, 1fr));\<newline>'',
       ''        gap: 2rem;\<newline>'',
       ''        margin-bottom: 2rem;\<newline>'',
       ''      }\<newline>'',
       ''\<newline>'',
       ''      /* Responsive */\<newline>'',
       ''      @media (max-width: 768px) {\<newline>'',
       ''        .header-content {\<newline>'',
       ''          flex-direction: column;\<newline>'',
       ''          gap: 1rem;\<newline>'',
       ''        }\<newline>'',
       ''\<newline>'',
       ''        .nav {\<newline>'',
       ''          flex-direction: column;\<newline>'',
       ''          text-align: center;\<newline>'',
       ''        }\<newline>'',
       ''\<newline>'',
       ''        .product-grid {\<newline>'',
       ''          grid-template-columns: repeat(auto-fill, minmax(150px, 1fr));\<newline>'',
       ''          gap: 1rem;\<newline>'',
       ''        }\<newline>'',
       ''      }\<newline>'',
       ''    '' ]\<close>

definition generateCSS :: "'a analysis_core_scheme \<Rightarrow> string" where
  "generateCSS analysis =
     (let colors = a_colors analysis; typography = a_typography analysis
      in ''\<newline>      :root {\<newline>        --color-primary: '' @ primary colors
         @ '';\<newline>        --color-secondary: '' @ secondary colors
         @ '';\<newline>        --color-accent: '' @ accent colors
         @ '';\<newline>        --color-text: #333;\<newline>        --color-background: #fff;\<newline>''
         @ ''        --font-heading: '' @ family (heading typography) @ '', ''
         @ js_string (fallback (heading typography))
         @ '';\<newline>        --font-body: '' @ family (body typography) @ '', ''
         @ js_string (fallback (body typography)) @ '';\<newline>''
         @ css_rules)"

definition html_skeleton :: string where
  \<open>html_skeleton = concat
     [ ''\<newline>'',
       ''      <!DOCTYPE html>\<newline>'',
       ''      <html lang="en">\<newline>'',
       ''      <head>\<newline>'',
       ''        <meta charset="UTF-8">\<newline>'',
       ''        <meta name="viewport" content="width=device-width, initial-scale=1.0">\<newline>'',
       ''        <title>{{storeName}}</title>\<newline>'',
       ''        <meta name="description" content="{{storeDescription}}">\<newline>'',
       ''        <link rel="stylesheet" href="/css/store.css">\<newline>'',
       ''      </head>\<newline>'',
       ''      <body>\<newline>'',
       ''        <header class="header">\<newline>'',
       ''          <div class="container">\<newline>'',
       ''            <div class="header-content">\<newline>'',
       ''              <div class="logo">\<newline>'',
       ''                <h1>{{storeName}}</h1>\<newline>'',
       ''              </div>\<newline>'',
       ''              <nav class="nav">\<newline>'',
       ''                {{#navigation}}\<newline>'',
       ''                <a href="{{url}}">{{label}}</a>\<newline>'',
       ''                {{/navigation}}\<newline>'',
       ''              </nav>\<newline>'',
       ''              <div class="header-actions">\<newline>'',
       ''                <button class="search-btn">Search</button>\<newline>'',
       ''                <button class="cart-btn">Cart (0)</button>\<newline>'',
       ''              </div>\<newline>'',
       ''            </div>\<newline>'',
       ''          </div>\<newline>'',
       ''        </header>\<newline>'',
       ''\<newline>'',
       ''        <main class="main">\<newline>'',
       ''          <section class="hero">\<newline>'',
       ''            <div class="container">\<newline>'',
       ''              <h2>Welcome to {{storeName}}</h2>\<newline>'',
       ''              <p>{{heroText}}</p>\<newline>'',
       ''            </div>\<newline>'',
       ''          </section>\<newline>'',
       ''\<newline>'',
       ''          <section class="products">\<newline>'',
       ''            <div class="container">\<newline>'',
       ''              <h2>Featured Products</h2>\<newline>'',
       ''              <div class="product-grid">\<newline>'',
       ''                {{#products}}\<newline>'',
       ''                <div class="product-card">\<newline>'',
       ''                  <img src="{{image}}" alt="{{name}}" class="product-image">\<newline>'',
       ''                  <div class="product-info">\<newline>'',
       ''                    <h3 class="product-name">{{name}}</h3>\<newline>'',
       ''                    <p class="product-price">{{price}}</p>\<newline>'',
       ''                    <button class="btn">Add to Cart</button>\<newline>'',
       ''                  </div>\<newline>'',
       ''                </div>\<newline>'',
       ''                {{/products}}\<newline>'',
       ''              </div>\<newline>'',
       ''            </div>\<newline>'',
       ''          </section>\<newline>'',
       ''        </main>\<newline>'',
       ''\<newline>'',
       ''        <footer class="footer">\<newline>'',
       ''          <div class="container">\<newline>'',
       ''            <div class="footer-content">\<newline>'',
       ''              <div class="footer-section">\<newline>'',
       ''                <h3>About Us</h3>\<newline>'',
       ''                <p>{{aboutText}}</p>\<newline>'',
       ''              </div>\<newline>'',
       ''              <div class="footer-section">\<newline>'',
       ''                <h3>Quick Links</h3>\<newline>'',
       ''                <ul>\<newline>'',
       ''                  {{#footerLinks}}\<newline>'',
       ''                  <li><a href="{{url}}">{{label}}</a></li>\<newline>'',
       ''                  {{/footerLinks}}\<newline>'',
       ''                </ul>\<newline>'',
       ''              </div>\<newline>'',
       ''              <div class="footer-section">\<newline>'',
       ''                <h3>Contact</h3>\<newline>'',
       ''                <p>{{contactInfo}}</p>\<newline>'',
       ''              </div>\<newline>'',
       ''            </div>\<newline>'',
       ''            <div class="footer-bottom">\<newline>'',
       ''              <p>&copy; 2024 {{storeName}}. All rights reserved.</p>\<newline>'',
       ''            </div>\<newline>'',
       ''          </div>\<newline>'',
       ''        </footer>\<newline>'',
       ''\<newline>'',
       ''        <script src="/js/store.js"></script>\<newline>'',
       ''      </body>\<newline>'',
       ''      </html>\<newline>'',
       ''    '' ]\<close>

definition generateHTML :: "'a analysis_core_scheme \<Rightarrow> string" where
  "generateHTML analysis = html_skeleton"

text \<open>The decimal numeral a template literal renders a non-negative integer as.\<close>

fun toString10 :: "nat \<Rightarrow> string" where
  "toString10 n =
     (if n < 10 then [''0123456789'' ! n]
      else toString10 (n div 10) @ [''0123456789'' ! (n mod 10)])"

declare toString10.simps [simp del]

text \<open>The generated template; its \<^verbatim>\<open>customizations\<close> object is the four \<open>g_\<close> fields.
  \<open>now\<close> is what \<^verbatim>\<open>Date.now()\<close> returns.\<close>

record generated_template =
  g_id :: string
  g_name :: string
  baseTemplate :: string
  g_colors :: color_analysis
  g_typography :: typography
  g_layout :: layout_analysis
  g_components :: "component list"
  css :: string
  html :: string

definition generateTemplate :: "nat \<Rightarrow> 'a analysis_core_scheme \<Rightarrow> generated_template" where
  "generateTemplate now analysis =
     \<lparr> g_id = ''custom-'' @ toString10 now,
       g_name = ''Custom Generated Template'',
       baseTemplate = selectBaseTemplate analysis,
       g_colors = a_colors analysis,
       g_typography = a_typography analysis,
       g_layout = a_layout analysis,
       g_components = selectComponents analysis,
       css = generateCSS analysis,
       html = generateHTML analysis \<rparr>"

section \<open>StoreBuilderService: createStore\<close>

text \<open>
  The request body: \<open>customizations\<close> is an object that may have any of the properties
  of an analysis and, beside them, \<^verbatim>\<open>fonts\<close> (a heading and a body font name) and
  \<^verbatim>\<open>theme\<close>; \<open>storeInfo\<close> has a name and optional settings. \<open>None\<close> is an absent
  property.
\<close>

record customizations =
  cz_colors :: "color_analysis option"
  cz_typography :: "typography option"
  cz_layout :: "layout_analysis option"
  cz_products :: "product_summary option"
  cz_fonts :: "(string \<times> string) option"
  cz_theme :: "string option"

record store_info =
  si_name :: string
  si_subdomain :: "string option"
  si_sourceUrl :: "string option"
  si_logo :: "string option"
  si_favicon :: "string option"
  si_language :: "string option"
  si_currency :: "string option"
  si_timezone :: "string option"
  si_seoTitle :: "string option"
  si_seoDescription :: "string option"
  si_keywords :: "string list option"

record create_request =
  userId :: string
  templateId :: "string option"
  customizations :: customizations
  storeInfo :: store_info

datatype template = Catalog catalog_entry | Generated generated_template

datatype store_fonts = SuppliedFonts "string \<times> string" | TemplateTypography typography

text \<open>The document handed to \<^verbatim>\<open>new Store\<close>, its nested objects flattened.\<close>

record store =
  s_userId :: string
  s_name :: string
  s_subdomain :: string
  s_sourceUrl :: "string option"
  s_analyzedData :: customizations
  s_colors :: color_analysis
  s_fonts :: store_fonts
  s_logo :: "string option"
  s_favicon :: "string option"
  s_layout :: string
  s_theme :: string
  s_components :: "component list"
  s_language :: string
  s_currency :: string
  s_timezone :: string
  s_seo_title :: string
  s_seo_description :: string
  s_seo_keywords :: "string list"
  s_status :: string

text \<open>
  \<open>generateTemplate\<close> applied to the customizations reads \<^verbatim>\<open>analysis.layout.structure\<close>,
  \<^verbatim>\<open>colors.primary\<close> and \<^verbatim>\<open>typography.heading\<close>: a TypeError when one of the three
  objects is absent.
\<close>

definition as_analysis :: "customizations \<Rightarrow> js_error + analysis_core" where
  "as_analysis cz =
     (case (cz_colors cz, cz_typography cz, cz_layout cz) of
        (Some c, Some t, Some l) \<Rightarrow>
          Inr \<lparr> a_colors = c, a_typography = t, a_layout = l, a_products = cz_products cz \<rparr>
      | _ \<Rightarrow> Inl TypeError)"

text \<open>\<^verbatim>\<open>this.templates.get(templateId) || await this.generateTemplate(customizations)\<close>.\<close>

definition resolve_template :: "nat \<Rightarrow> string option \<Rightarrow> customizations \<Rightarrow> js_error + template" where
  "resolve_template now tid cz =
     (case (case tid of None \<Rightarrow> None | Some i \<Rightarrow> loadTemplates i) of
        Some entry \<Rightarrow> Inr (Catalog entry)
      | None \<Rightarrow>
          (case as_analysis cz of
             Inl e \<Rightarrow> Inl e
           | Inr a \<Rightarrow> Inr (Generated (generateTemplate now a))))"

text \<open>\<^verbatim>\<open>template.customizations\<close>: \<^verbatim>\<open>undefined\<close> on a catalog entry.\<close>

definition template_customizations :: "template \<Rightarrow> generated_template option" where
  "template_customizations t = (case t of Catalog _ \<Rightarrow> None | Generated g \<Rightarrow> Some g)"

text \<open>\<^verbatim>\<open>v || d\<close> on an optional string.\<close>

definition or_default :: "string option \<Rightarrow> string \<Rightarrow> string" where
  "or_default v d = (case v of None \<Rightarrow> d | Some s \<Rightarrow> if s = [] then d else s)"

text \<open>\<^verbatim>\<open>name.toLowerCase().replace(/[^a-z0-9]/g, '')\<close>.\<close>

definition toLowerCase :: "string \<Rightarrow> string" where
  "toLowerCase s =
     map (\<lambda>c. if (of_char c :: nat) \<in> {65..90} \<union> {192..214} \<union> {216..222}
              then char_of (of_char c + 32 :: nat) else c) s"

definition strip_non_alnum :: "string \<Rightarrow> string" where
  "strip_non_alnum s = filter (\<lambda>c. c \<in> set ''abcdefghijklmnopqrstuvwxyz0123456789'') s"

text \<open>
  \<open>createStore\<close>. The object literal is evaluated property by property; reading a
  property of \<^verbatim>\<open>template.customizations\<close> when that is \<^verbatim>\<open>undefined\<close> throws a
  TypeError, which the \<^verbatim>\<open>catch\<close> logs and throws again. \<open>saved\<close> tells whether
  \<^verbatim>\<open>store.save()\<close> succeeds. \<^verbatim>\<open>template.structure?.layout\<close> is \<^verbatim>\<open>undefined\<close> for
  both kinds of template.
\<close>

definition createStore :: "nat \<Rightarrow> bool \<Rightarrow> create_request \<Rightarrow> js_error + store" where
  "createStore now saved req =
     (let cz = customizations req; info = storeInfo req
      in case resolve_template now (templateId req) cz of
           Inl e \<Rightarrow> Inl e
         | Inr template \<Rightarrow>
            (case (case cz_colors cz of
                     Some c \<Rightarrow> Inr c
                   | None \<Rightarrow> (case template_customizations template of
                                None \<Rightarrow> Inl TypeError
                              | Some tc \<Rightarrow> Inr (g_colors tc))) of
               Inl e \<Rightarrow> Inl e
             | Inr the_colors \<Rightarrow>
            (case (case cz_fonts cz of
                     Some f \<Rightarrow> Inr (SuppliedFonts f)
                   | None \<Rightarrow> (case template_customizations template of
                                None \<Rightarrow> Inl TypeError
                              | Some tc \<Rightarrow> Inr (TemplateTypography (g_typography tc)))) of
               Inl e \<Rightarrow> Inl e
             | Inr the_fonts \<Rightarrow>
            (case template_customizations template of
               None \<Rightarrow> Inl TypeError
             | Some tc \<Rightarrow>
                 if saved
                 then Inr \<lparr> s_userId = userId req,
                            s_name = si_name info,
                            s_subdomain = or_default (si_subdomain info)
                                            (strip_non_alnum (toLowerCase (si_name info))),
                            s_sourceUrl = si_sourceUrl info,
                            s_analyzedData = cz,
                            s_colors = the_colors,
                            s_fonts = the_fonts,
                            s_logo = si_logo info,
                            s_favicon = si_favicon info,
                            s_layout = ''single-column'',
                            s_theme = or_default (cz_theme cz) ''light'',
                            s_components = g_components tc,
                            s_language = or_default (si_language info) ''en'',
                            s_currency = or_default (si_currency info) ''USD'',
                            s_timezone = or_default (si_timezone info) ''UTC'',
                            s_seo_title = or_default (si_seoTitle info) (si_name info),
                            s_seo_description = or_default (si_seoDescription info)
                                                  (''Welcome to '' @ si_name info),
                            s_seo_keywords = (case si_keywords info of None \<Rightarrow> [] | Some k \<Rightarrow> k),
                            s_status = ''draft'' \<rparr>
                 else Inl PersistenceError))))"

section \<open>Inputs and projections used in the statements\<close>

text \<open>The text \<^verbatim>\<open>rgb(r, g, b)\<close> with the three channels in decimal, as a computed style
  serialises an opaque colour.\<close>

definition rgb_string :: "nat \<Rightarrow> nat \<Rightarrow> nat \<Rightarrow> string" where
  "rgb_string r g b =
     ''rgb('' @ toString10 r @ '', '' @ toString10 g @ '', '' @ toString10 b @ '')''"

text \<open>An analysis without its recommendations.\<close>

definition without_recommendations :: "design_analysis \<Rightarrow> analysis_core" where
  "without_recommendations a =
     \<lparr> a_colors = a_colors a, a_typography = a_typography a, a_layout = a_layout a,
       a_products = a_products a \<rparr>"

text \<open>Concrete inputs for the examples below.\<close>

definition example_layout :: layout_signals where
  "example_layout = \<lparr> hasHeader = True, hasNav = False, hasMainContent = True, hasFooter = True,
                        headerHeight = 80, footerHeight = 200 \<rparr>"

definition example_site :: scraped_site where
  "example_site =
     \<lparr> url = ''https://shop.example'',
       design = \<lparr> colors = [''rgb(255, 0, 0)'', ''#00ff00''], fonts = [],
                   layout = example_layout, title = ''Shop'' \<rparr>,
       products = [] \<rparr>"


definition example_parse :: "string \<Rightarrow> json option" where
  "example_parse s =
     (if s = ''null'' then Some JNull else if s = ''{}'' then Some (JObj []) else None)"

definition example_dom :: dom where
  \<open>example_dom sel =
     (if sel = ''.product''
      then [\<lparr> name_text = ''Mug'', price_text = '' $5 '', img_src = None, a_href = None \<rparr>]
      else if sel = ''[itemtype*="Product"]''
      then [\<lparr> name_text = ''Lamp'', price_text = ''$9'', img_src = None, a_href = None \<rparr>]
      else [])\<close>

definition example_colors :: color_analysis where
  "example_colors = \<lparr> primary = ''#112233'', secondary = ''#445566'', accent = ''#778899'',
                        all_colors = [] \<rparr>"

definition example_summary :: product_summary where
  "example_summary = \<lparr> count = 2, hasImages = True, hasPrices = False, nameField = ''name'',
                         priceField = ''price'', imageField = ''image'', linkField = ''link'',
                         samples = [] \<rparr>"

definition example_analysis :: analysis_core where
  "example_analysis =
     \<lparr> a_colors = example_colors,
       a_typography = analyzeTypography [''Georgia, serif''],
       a_layout = analyzeLayout example_layout,
       a_products = Some example_summary \<rparr>"

definition example_request :: create_request where
  "example_request =
     \<lparr> userId = ''u1'',
       templateId = Some ''modern'',
       customizations = \<lparr> cz_colors = Some example_colors, cz_typography = None,
                           cz_layout = None, cz_products = None,
                           cz_fonts = Some (''Inter'', ''Georgia''), cz_theme = Some ''dark'' \<rparr>,
       storeInfo = \<lparr> si_name = ''My Shop'', si_subdomain = None, si_sourceUrl = None,
                       si_logo = None, si_favicon = None, si_language = None,
                       si_currency = None, si_timezone = None, si_seoTitle = None,
                       si_seoDescription = None, si_keywords = None \<rparr> \<rparr>"

section \<open>Decimal and hexadecimal digits\<close>

lemma dec_digit: "d < 10 \<Longrightarrow> is_digit (''0123456789'' ! d)"
proof -
  assume "d < 10"
  then have "d \<in> {0,1,2,3,4,5,6,7,8,9}" by auto
  then show ?thesis by (auto simp: is_digit_def)
qed

lemma dec_digit_val: "d < 10 \<Longrightarrow> digit_val (''0123456789'' ! d) = d"
proof -
  assume "d < 10"
  then have "d \<in> {0,1,2,3,4,5,6,7,8,9}" by auto
  then show ?thesis by (auto simp: digit_val_def)
qed

lemma toString10_digits: "list_all is_digit (toString10 n)"
proof (induction n rule: toString10.induct)
  case (1 n)
  show ?case
  proof (cases "n < 10")
    case True
    then show ?thesis by (subst toString10.simps) (simp add: dec_digit)
  next
    case False
    with 1 show ?thesis by (subst toString10.simps) (simp add: dec_digit)
  qed
qed

lemma toString10_nonempty: "toString10 n \<noteq> []"
  by (subst toString10.simps) simp

lemma parseInt_snoc: "parseInt (xs @ [c]) = 10 * parseInt xs + digit_val c"
  by (simp add: parseInt_def)

lemma parseInt_toString10: "parseInt (toString10 n) = n"
proof (induction n rule: toString10.induct)
  case (1 n)
  show ?case
  proof (cases "n < 10")
    case True
    then show ?thesis by (subst toString10.simps) (simp add: parseInt_def dec_digit_val)
  next
    case False
    with 1 show ?thesis by (subst toString10.simps) (simp add: parseInt_snoc dec_digit_val)
  qed
qed

lemma below_16_cases:
  assumes "d < (16::nat)"
  shows "d \<in> {0,1,2,3,4,5,6,7,8,9,10,11,12,13,14,15}"
proof -
  from assms have "d < 8 \<or> (8 \<le> d \<and> d < 16)" by arith
  then show ?thesis
  proof
    assume "d < 8"
    then have "d \<in> {0,1,2,3,4,5,6,7}" by auto
    then show ?thesis by auto
  next
    assume "8 \<le> d \<and> d < 16"
    then have "d - 8 < 8" "d = (d - 8) + 8" by auto
    then have "d - 8 \<in> {0,1,2,3,4,5,6,7}" by auto
    then have "(d - 8) + 8 \<in> {8,9,10,11,12,13,14,15}" by auto
    with \<open>d = (d - 8) + 8\<close> have "d \<in> {8,9,10,11,12,13,14,15}" by simp
    then show ?thesis by auto
  qed
qed

lemma hex_char_lower: "d < 16 \<Longrightarrow> is_lower_hex_digit (hex_char d)"
  using below_16_cases [of d] by (auto simp: is_lower_hex_digit_def hex_char_def)

lemma lower_hex_is_hex: "is_lower_hex_digit c \<Longrightarrow> is_hex_digit c"
  by (auto simp: is_lower_hex_digit_def is_hex_digit_def)

lemma hex_char_val: "d < 16 \<Longrightarrow> hex_digit_val (hex_char d) = d"
  using below_16_cases [of d] by (auto simp: hex_digit_val_def hex_char_def is_digit_def)

lemma toString16_small: "n < 16 \<Longrightarrow> toString16 n = [hex_char n]"
  by (subst toString16.simps) simp

lemma toString16_two:
  "16 \<le> n \<Longrightarrow> n < 256 \<Longrightarrow> toString16 n = [hex_char (n div 16), hex_char (n mod 16)]"
  by (subst toString16.simps) (simp add: toString16_small)

lemma hex_channel:
  assumes "parseInt x = n" "n \<le> 255"
  shows "hex big x = [hex_char (n div 16), hex_char (n mod 16)]"
proof (cases "n < 16")
  case True
  then show ?thesis
    using assms by (simp add: hex_def number_toString16_def toString16_small hex_char_def)
next
  case False
  then show ?thesis
    using assms by (simp add: hex_def number_toString16_def toString16_two)
qed

lemma parseInt16_pair:
  "a < 16 \<Longrightarrow> b < 16 \<Longrightarrow> parseInt16 [hex_char a, hex_char b] = 16 * a + b"
  by (simp add: parseInt16_def hex_char_val)

section \<open>The colour expression on \<open>rgb(r, g, b)\<close>\<close>

lemma takeWhile_digits:
  "list_all is_digit ds \<Longrightarrow> \<not> is_digit c \<Longrightarrow> takeWhile is_digit (ds @ c # rest) = ds"
  by (induction ds) auto

lemma dropWhile_digits:
  "list_all is_digit ds \<Longrightarrow> \<not> is_digit c \<Longrightarrow> dropWhile is_digit (ds @ c # rest) = c # rest"
  by (induction ds) auto

lemma digits1_run:
  "list_all is_digit ds \<Longrightarrow> ds \<noteq> [] \<Longrightarrow> \<not> is_digit c
     \<Longrightarrow> digits1 (ds @ c # rest) = Some (ds, c # rest)"
  by (simp add: digits1_def takeWhile_digits dropWhile_digits)

lemma digit_not_space: "is_digit c \<Longrightarrow> \<not> is_space c"
  by (auto simp: is_digit_def is_space_def)

lemma dropWhile_space_digits:
  "list_all is_digit ds \<Longrightarrow> ds \<noteq> [] \<Longrightarrow> dropWhile is_space (ds @ rest) = ds @ rest"
  by (cases ds) (auto simp: digit_not_space)

lemma match_rgb_at_rgb_string:
  "match_rgb_at (rgb_string r g b) = Some (toString10 r, toString10 g, toString10 b)"
proof -
  have sp: "is_space (CHR '' '')" by (simp add: is_space_def)
  have nd: "\<not> is_digit (CHR '','')" "\<not> is_digit (CHR '')'')" by (simp_all add: is_digit_def)
  show ?thesis
    by (simp add: match_rgb_at_def rgb_string_def expect_def digits1_run sp nd
        dropWhile_space_digits toString10_digits toString10_nonempty)
qed

lemma match_rgb_rgb_string:
  "match_rgb (rgb_string r g b) = Some (toString10 r, toString10 g, toString10 b)"
proof -
  have "rgb_string r g b = CHR ''r'' # tl (rgb_string r g b)"
    by (simp add: rgb_string_def)
  then have "match_rgb (rgb_string r g b) =
      (case match_rgb_at (rgb_string r g b) of
         Some m \<Rightarrow> Some m | None \<Rightarrow> match_rgb (tl (rgb_string r g b)))"
    by (metis match_rgb.simps(2))
  then show ?thesis by (simp add: match_rgb_at_rgb_string)
qed

lemma hexToRgb_channels:
  assumes "r \<le> 255" "g \<le> 255" "b \<le> 255"
  shows "hexToRgb [CHR ''#'', hex_char (r div 16), hex_char (r mod 16), hex_char (g div 16),
                   hex_char (g mod 16), hex_char (b div 16), hex_char (b mod 16)]
         = Some \<lparr> rgb_r = r, rgb_g = g, rgb_b = b \<rparr>"
proof -
  have d: "r div 16 < 16" "g div 16 < 16" "b div 16 < 16" using assms by auto
  have m: "r mod 16 < 16" "g mod 16 < 16" "b mod 16 < 16" by auto
  show ?thesis using d m
    by (simp add: hexToRgb_def parseInt16_pair hex_char_lower lower_hex_is_hex)
qed

lemma rgbToHex_rgb_string:
  assumes "r \<le> 255" "g \<le> 255" "b \<le> 255"
  shows "rgbToHex big (rgb_string r g b)
         = [CHR ''#'', hex_char (r div 16), hex_char (r mod 16), hex_char (g div 16),
            hex_char (g mod 16), hex_char (b div 16), hex_char (b mod 16)]"
proof -
  have "\<not> prefix ''#'' (rgb_string r g b)" by (simp add: rgb_string_def)
  then show ?thesis
    using assms
    by (simp add: rgbToHex_def match_rgb_rgb_string hex_channel [OF parseInt_toString10])
qed

text \<open>
  C6. For channels r, g, b in 0..255 \<open>rgbToHex\<close> turns \<^verbatim>\<open>rgb(r, g, b)\<close> into \<^verbatim>\<open>#\<close> and
  six lower-case hexadecimal digits which \<open>hexToRgb\<close> decodes to (r, g, b) again; and a
  string that starts with \<^verbatim>\<open>#\<close> is returned as it is.
\<close>

theorem rgbToHex_roundtrip:
  "(r \<le> 255 \<and> g \<le> 255 \<and> b \<le> 255 \<longrightarrow>
      (\<exists>h. rgbToHex big (rgb_string r g b) = CHR ''#'' # h \<and> length h = 6
           \<and> list_all is_lower_hex_digit h
           \<and> hexToRgb (CHR ''#'' # h) = Some \<lparr> rgb_r = r, rgb_g = g, rgb_b = b \<rparr>))
   \<and> rgbToHex big (CHR ''#'' # s) = CHR ''#'' # s"
proof
  show "r \<le> 255 \<and> g \<le> 255 \<and> b \<le> 255 \<longrightarrow>
      (\<exists>h. rgbToHex big (rgb_string r g b) = CHR ''#'' # h \<and> length h = 6
           \<and> list_all is_lower_hex_digit h
           \<and> hexToRgb (CHR ''#'' # h) = Some \<lparr> rgb_r = r, rgb_g = g, rgb_b = b \<rparr>)"
  proof
    assume a: "r \<le> 255 \<and> g \<le> 255 \<and> b \<le> 255"
    then have d: "r div 16 < 16" "g div 16 < 16" "b div 16 < 16" by auto
    have m: "r mod 16 < 16" "g mod 16 < 16" "b mod 16 < 16" by auto
    from a have 1: "rgbToHex big (rgb_string r g b)
        = CHR ''#'' # [hex_char (r div 16), hex_char (r mod 16), hex_char (g div 16),
                       hex_char (g mod 16), hex_char (b div 16), hex_char (b mod 16)]"
      by (simp add: rgbToHex_rgb_string)
    from a have 2: "hexToRgb (CHR ''#'' # [hex_char (r div 16), hex_char (r mod 16),
                       hex_char (g div 16), hex_char (g mod 16), hex_char (b div 16),
                       hex_char (b mod 16)])
        = Some \<lparr> rgb_r = r, rgb_g = g, rgb_b = b \<rparr>"
      by (simp add: hexToRgb_channels)
    have 3: "list_all is_lower_hex_digit [hex_char (r div 16), hex_char (r mod 16),
               hex_char (g div 16), hex_char (g mod 16), hex_char (b div 16),
               hex_char (b mod 16)]"
      using d m by (simp add: hex_char_lower)
    from 1 2 3 show "\<exists>h. rgbToHex big (rgb_string r g b) = CHR ''#'' # h \<and> length h = 6
           \<and> list_all is_lower_hex_digit h
           \<and> hexToRgb (CHR ''#'' # h) = Some \<lparr> rgb_r = r, rgb_g = g, rgb_b = b \<rparr>"
      by simp
  qed
  show "rgbToHex big (CHR ''#'' # s) = CHR ''#'' # s" by (simp add: rgbToHex_def)
qed

text \<open>C6 at the colour \<^verbatim>\<open>rgb(255, 128, 0)\<close>.\<close>

theorem rgbToHex_roundtrip_witness:
  "(255::nat) \<le> 255 \<and> (128::nat) \<le> 255 \<and> (0::nat) \<le> 255
   \<and> rgb_string 255 128 0 = ''rgb(255, 128, 0)''
   \<and> (\<exists>h. rgbToHex (\<lambda>n. []) ''rgb(255, 128, 0)'' = CHR ''#'' # h \<and> length h = 6
          \<and> list_all is_lower_hex_digit h
          \<and> hexToRgb (CHR ''#'' # h) = Some \<lparr> rgb_r = 255, rgb_g = 128, rgb_b = 0 \<rparr>)"
proof -
  have s: "rgb_string 255 128 0 = ''rgb(255, 128, 0)''"
    by (simp add: rgb_string_def toString10.simps)
  from rgbToHex_roundtrip [of 255 128 0 "\<lambda>n. []"] s show ?thesis by simp
qed

section \<open>Font classification\<close>

lemma js_includes_sublist: "js_includes s k \<longleftrightarrow> sublist k s"
  by (induction s) (auto simp: sublist_Cons_right)

text \<open>
  C7 (amended). The category and the fallback of a font name are decided by keyword
  membership, the serif keywords first: a name that contains Times, Georgia, Garamond or
  Serif is \<^verbatim>\<open>serif\<close> with \<^verbatim>\<open>Georgia, serif\<close>; a name that contains none of them but
  Courier, Monaco, Consolas or Monospace is \<^verbatim>\<open>monospace\<close> with \<^verbatim>\<open>Courier New,
  monospace\<close>; every other name is \<^verbatim>\<open>sans-serif\<close> with \<^verbatim>\<open>Arial, sans-serif\<close>.
\<close>

theorem categorizeFontFamily_keywords:
  "(categorizeFontFamily font, getFontFallback font) =
     (if list_ex (\<lambda>k. sublist k font) [''Times'', ''Georgia'', ''Garamond'', ''Serif'']
      then (''serif'', ''Georgia, serif'')
      else if list_ex (\<lambda>k. sublist k font) [''Courier'', ''Monaco'', ''Consolas'', ''Monospace'']
      then (''monospace'', ''Courier New, monospace'')
      else (''sans-serif'', ''Arial, sans-serif''))"
  by (simp add: getFontFallback_def categorizeFontFamily_def serif_def monospace_def
      js_includes_sublist)

text \<open>C7 at \<^verbatim>\<open>Times New Roman\<close>, \<^verbatim>\<open>Consolas\<close> and a name with no keyword.\<close>

theorem categorizeFontFamily_keywords_witness:
  "(categorizeFontFamily ''Times New Roman'', getFontFallback ''Times New Roman'')
     = (''serif'', ''Georgia, serif'')
   \<and> (categorizeFontFamily ''Consolas'', getFontFallback ''Consolas'')
     = (''monospace'', ''Courier New, monospace'')
   \<and> (categorizeFontFamily ''Inter'', getFontFallback ''Inter'')
     = (''sans-serif'', ''Arial, sans-serif'')"
  using categorizeFontFamily_keywords [of "''Times New Roman''"]
        categorizeFontFamily_keywords [of "''Consolas''"]
        categorizeFontFamily_keywords [of "''Inter''"]
  by (simp add: js_includes_sublist [symmetric])

text \<open>
  C7 as stated fails: \<^verbatim>\<open>Courier Serif\<close> contains the monospace keyword Courier and is
  classified \<^verbatim>\<open>serif\<close>, because it also contains Serif and the serif list is tried
  first.
\<close>

theorem monospace_keyword_counterexample:
  "sublist ''Courier'' ''Courier Serif'' \<and> categorizeFontFamily ''Courier Serif'' = ''serif''"
  by (simp add: js_includes_sublist [symmetric] categorizeFontFamily_def serif_def
      monospace_def)

section \<open>Product extraction\<close>

lemma try_selectors_find:
  "try_selectors d sels =
     (case find (\<lambda>s. d s \<noteq> []) sels of
        None \<Rightarrow> []
      | Some s \<Rightarrow> map product_of (take 10 (d s)))"
  by (induction sels) (auto simp: Let_def)

text \<open>
  C2 (amended). The patterns are tried in the order \<^verbatim>\<open>.product\<close>, \<^verbatim>\<open>.product-item\<close>,
  \<^verbatim>\<open>.product-card\<close>, the itemtype/Product microdata pattern, \<^verbatim>\<open>[data-product]\<close>; the
  products are read from the first ten matches of the first pattern that matches at
  all and of no other pattern, and there are none when no pattern matches.
\<close>

theorem extractProducts_first_match:
  \<open>extractProducts d =
     (case find (\<lambda>s. d s \<noteq> [])
             [''.product'', ''.product-item'', ''.product-card'', ''[itemtype*="Product"]'',
              ''[data-product]''] of
        None \<Rightarrow> []
      | Some s \<Rightarrow> map product_of (take 10 (d s)))
   \<and> length (extractProducts d) \<le> 10\<close>
proof -
  have 1: "extractProducts d =
      (case find (\<lambda>s. d s \<noteq> []) productSelectors of
         None \<Rightarrow> []
       | Some s \<Rightarrow> map product_of (take 10 (d s)))"
    by (simp add: extractProducts_def try_selectors_find)
  have 2: "length (extractProducts d) \<le> 10"
    unfolding 1 by (simp split: option.split)
  from 1 2 show ?thesis by (simp add: productSelectors_def)
qed

text \<open>
  C2 as stated fails: on a page where the microdata pattern selects a lamp and
  \<^verbatim>\<open>.product\<close> selects a mug, the microdata pattern matches and yet the product
  extracted is the mug; the order of the specification would give the lamp.
\<close>

theorem extractProducts_order_counterexample:
  \<open>example_dom ''[itemtype*="Product"]'' \<noteq> []
   \<and> map p_name (extractProducts example_dom) = [''Mug'']
   \<and> map p_name (try_selectors example_dom spec_productSelectors) = [''Lamp'']\<close>
  by (simp add: example_dom_def extractProducts_def productSelectors_def
      spec_productSelectors_def product_of_def trim_def is_space_def)

section \<open>Recommendations\<close>

text \<open>
  When the completion call throws, when the completion has no choice, or when the
  content is a string that \<^verbatim>\<open>JSON.parse\<close> rejects, \<open>getAIRecommendations\<close> returns the
  fixed object. It returns a value in every case: its result type has no error.
\<close>

lemma getAIRecommendations_fallback:
  assumes "outcome = CallThrows \<or> outcome = Completion []
           \<or> (\<exists>s rest. outcome = Completion (Some s # rest) \<and> parse s = None)"
  shows "getAIRecommendations parse scrapedData outcome = JObj
     [ (''improvements'', JArr [JStr ''Modern design patterns'', JStr ''Better color contrast'',
                                JStr ''Clear CTAs'']),
       (''ux'', JArr [JStr ''Simplified navigation'', JStr ''Faster load times'',
                      JStr ''Better mobile experience'']),
       (''mobile'', JArr [JStr ''Touch-friendly buttons'', JStr ''Responsive images'',
                          JStr ''Optimized fonts'']),
       (''conversion'', JArr [JStr ''Clear value proposition'', JStr ''Trust badges'',
                              JStr ''Simplified checkout'']) ]"
proof -
  from assms have "getAIRecommendations parse scrapedData outcome = fallback_recommendations"
    by (auto simp: getAIRecommendations_def)
  then show ?thesis by (simp add: fallback_recommendations_def)
qed

text \<open>
  C3 fails on the code for a completion whose content is \<^verbatim>\<open>null\<close>, a response that
  carries no JSON text: \<^verbatim>\<open>JSON.parse(null)\<close> parses the text \<^verbatim>\<open>null\<close> and does not
  throw, so \<open>getAIRecommendations\<close> returns \<^verbatim>\<open>null\<close> and not the fixed object.
\<close>

theorem getAIRecommendations_null_content:
  assumes "parse ''null'' = Some JNull"
  shows "getAIRecommendations parse scrapedData (Completion (None # rest)) = JNull
       \<and> getAIRecommendations parse scrapedData (Completion (None # rest))
           \<noteq> fallback_recommendations"
  using assms by (simp add: getAIRecommendations_def fallback_recommendations_def)

text \<open>C3 at a completion with one choice whose content is \<^verbatim>\<open>null\<close>.\<close>

theorem getAIRecommendations_null_content_witness:
  "example_parse ''null'' = Some JNull
   \<and> getAIRecommendations example_parse example_site (Completion [None]) = JNull
   \<and> getAIRecommendations example_parse example_site (Completion [None])
       \<noteq> fallback_recommendations"
proof -
  have 1: "example_parse ''null'' = Some JNull" by (simp add: example_parse_def)
  from getAIRecommendations_null_content [of example_parse example_site "[]"] 1
  show ?thesis by blast
qed

section \<open>The analysis as a whole\<close>

lemma map_throwing_Inr:
  "list_all (\<lambda>x. \<exists>y. f x = Inr y) xs
     \<Longrightarrow> \<exists>ys. map_throwing f xs = Inr ys \<and> length ys = length xs"
  by (induction xs) auto

lemma process_color_Inr:
  "hexToRgb (rgbToHex big c) \<noteq> None \<Longrightarrow> \<exists>e. process_color big c = Inr e"
  by (auto simp: process_color_def categorizeColor_def Let_def)

lemma analyzeColors_Inr:
  assumes "list_all (\<lambda>c. hexToRgb (rgbToHex big c) \<noteq> None) cs"
  shows "\<exists>ca. analyzeColors big cs = Inr ca"
proof -
  from assms have "list_all (\<lambda>c. \<exists>e. process_color big c = Inr e) cs"
    by (simp add: list_all_iff process_color_Inr)
  then obtain ys where "map_throwing (process_color big) cs = Inr ys"
    using map_throwing_Inr by blast
  then show ?thesis by (simp add: analyzeColors_def)
qed

text \<open>
  Colour strings that normalise to a decodable string: \<^verbatim>\<open>rgb(r, g, b)\<close> with channels
  up to 255, a string without a leading \<^verbatim>\<open>#\<close> that the expression does not match
  (it becomes \<^verbatim>\<open>#000000\<close>), and \<^verbatim>\<open>#\<close> with exactly six hexadecimal digits.
\<close>

lemma decodable_colours:
  assumes "(\<exists>r g b. r \<le> 255 \<and> g \<le> 255 \<and> b \<le> 255 \<and> c = rgb_string r g b)
           \<or> (\<not> prefix ''#'' c \<and> match_rgb c = None)
           \<or> (\<exists>h. c = CHR ''#'' # h \<and> length h = 6 \<and> list_all is_hex_digit h)"
  shows "hexToRgb (rgbToHex big c) \<noteq> None"
  using assms
proof (elim disjE exE conjE)
  fix r g b
  assume "r \<le> 255" "g \<le> 255" "b \<le> 255" "c = rgb_string r g b"
  then show ?thesis by (simp add: rgbToHex_rgb_string hexToRgb_channels)
next
  assume "\<not> prefix ''#'' c" "match_rgb c = None"
  then have "rgbToHex big c = ''#000000''" by (simp add: rgbToHex_def)
  then show ?thesis by (simp add: hexToRgb_def is_hex_digit_def)
next
  fix h
  assume h: "c = CHR ''#'' # h" "length h = 6" "list_all is_hex_digit h"
  then have "rgbToHex big c = CHR ''#'' # h" by (simp add: rgbToHex_def)
  with h show ?thesis by (simp add: hexToRgb_def)
qed

lemma analyzeColors_empty:
  "analyzeColors big [] =
     Inr \<lparr> primary = ''#000000'', secondary = ''#666666'', accent = ''#0066cc'',
           all_colors = [] \<rparr>"
  by (simp add: analyzeColors_def hex_or_def)

lemma analyzeTypography_empty:
  "analyzeTypography [] = \<lparr> heading = default_font, body = default_font, all_fonts = [] \<rparr>"
  by (simp add: analyzeTypography_def)

lemma example_colors_analysis:
  "analyzeColors (\<lambda>n. []) [''rgb(255, 0, 0)'', ''#00ff00'']
     = Inr \<lparr> primary = ''#ff0000'', secondary = ''#00ff00'', accent = ''#0066cc'',
             all_colors =
               [\<lparr> original = ''rgb(255, 0, 0)'', hex_value = ''#ff0000'', usage = ''accent'' \<rparr>,
                \<lparr> original = ''#00ff00'', hex_value = ''#00ff00'', usage = ''accent'' \<rparr>] \<rparr>"
  by (simp add: analyzeColors_def process_color_def Let_def hex_or_def categorizeColor_def
      brightness_def rgbToHex_def match_rgb_at_def expect_def digits1_def is_digit_def
      is_space_def hex_def number_toString16_def parseInt_def digit_val_def toString16.simps
      hex_char_def hexToRgb_def is_hex_digit_def parseInt16_def hex_digit_val_def)

text \<open>
  When every collected colour normalises to a string that \<open>hexToRgb\<close> decodes,
  \<open>analyzeDesign\<close> returns an analysis; in it an empty colour list gives primary
  \<^verbatim>\<open>#000000\<close>, secondary \<^verbatim>\<open>#666666\<close> and accent \<^verbatim>\<open>#0066cc\<close>, and an empty font list
  gives the Arial / sans-serif entry as heading and as body.
\<close>

lemma analyzeDesign_returns:
  assumes "list_all (\<lambda>c. hexToRgb (rgbToHex big c) \<noteq> None) (colors (design sd))"
  shows "\<exists>a. analyzeDesign big parse sd outcome = Inr a
           \<and> (colors (design sd) = [] \<longrightarrow>
                 primary (a_colors a) = ''#000000'' \<and> secondary (a_colors a) = ''#666666''
                 \<and> accent (a_colors a) = ''#0066cc'')
           \<and> (fonts (design sd) = [] \<longrightarrow>
                 heading (a_typography a)
                   = \<lparr> family = ''Arial'', category = ''sans-serif'', fallback = None \<rparr>
                 \<and> body (a_typography a)
                   = \<lparr> family = ''Arial'', category = ''sans-serif'', fallback = None \<rparr>)"
proof -
  from assms obtain ca where ca: "analyzeColors big (colors (design sd)) = Inr ca"
    using analyzeColors_Inr by blast
  have "colors (design sd) = [] \<Longrightarrow>
          ca = \<lparr> primary = ''#000000'', secondary = ''#666666'', accent = ''#0066cc'',
                 all_colors = [] \<rparr>"
    using ca by (simp add: analyzeColors_empty)
  then show ?thesis
    using ca by (auto simp: analyzeDesign_def analyzeTypography_empty default_font_def)
qed






text \<open>
  C5. Two runs of \<open>analyzeDesign\<close> on the same scraped site, whatever the completion
  service answers in each, either both throw the same error or return analyses that
  agree in colors, typography, layout and products.
\<close>

theorem analyzeDesign_deterministic:
  "map_sum id without_recommendations (analyzeDesign big parse sd outcome1)
   = map_sum id without_recommendations (analyzeDesign big parse sd outcome2)"
  by (simp add: analyzeDesign_def without_recommendations_def split: sum.split)

section \<open>Template synthesis\<close>

text \<open>
  C8. The base template is \<^verbatim>\<open>modern\<close> exactly when the header flag and the footer flag
  of the layout structure are both true, and \<^verbatim>\<open>minimal\<close> in every other case.
\<close>

theorem selectBaseTemplate_binary:
  "(selectBaseTemplate a = ''modern''
      \<longleftrightarrow> header (struct (a_layout a)) \<and> footer (struct (a_layout a)))
   \<and> (selectBaseTemplate a = ''minimal''
      \<longleftrightarrow> \<not> (header (struct (a_layout a)) \<and> footer (struct (a_layout a))))"
  by (simp add: selectBaseTemplate_def)

text \<open>C8 at a layout with a header and a footer.\<close>

theorem selectBaseTemplate_binary_witness:
  "header (struct (a_layout example_analysis)) \<and> footer (struct (a_layout example_analysis))
   \<and> selectBaseTemplate example_analysis = ''modern''"
  using selectBaseTemplate_binary [of example_analysis]
  by (simp add: example_analysis_def analyzeLayout_def example_layout_def)



text \<open>
  C10. When the scraped font list is empty, the heading and the body of the typography
  are the default entry, which has a family and a category and no fallback, and the
  stylesheet generated from the analysis renders both \<^verbatim>\<open>--font-heading\<close> and
  \<^verbatim>\<open>--font-body\<close> as \<^verbatim>\<open>Arial, undefined\<close>.
\<close>

theorem empty_fonts_render_undefined:
  assumes "fonts (design sd) = []" and "analyzeDesign big parse sd outcome = Inr a"
  shows "heading (a_typography a)
           = \<lparr> family = ''Arial'', category = ''sans-serif'', fallback = None \<rparr>
       \<and> body (a_typography a)
           = \<lparr> family = ''Arial'', category = ''sans-serif'', fallback = None \<rparr>
       \<and> generateCSS a =
            ''\<newline>      :root {\<newline>        --color-primary: '' @ primary (a_colors a)
            @ '';\<newline>        --color-secondary: '' @ secondary (a_colors a)
            @ '';\<newline>        --color-accent: '' @ accent (a_colors a)
            @ '';\<newline>        --color-text: #333;\<newline>        --color-background: #fff;\<newline>''
            @ ''        --font-heading: Arial, undefined;\<newline>''
            @ ''        --font-body: Arial, undefined;\<newline>''
            @ css_rules"
proof -
  from assms
  have t: "a_typography a = \<lparr> heading = default_font, body = default_font, all_fonts = [] \<rparr>"
    by (auto simp: analyzeDesign_def analyzeTypography_empty split: sum.splits)
  show ?thesis
    by (simp add: t generateCSS_def Let_def default_font_def js_string_def)
qed

text \<open>C10 at a site with two colours and no font.\<close>

theorem empty_fonts_render_undefined_witness:
  "fonts (design example_site) = []
   \<and> (\<exists>a. analyzeDesign (\<lambda>n. []) example_parse example_site CallThrows = Inr a
          \<and> fallback (heading (a_typography a)) = None
          \<and> generateCSS a =
            ''\<newline>      :root {\<newline>        --color-primary: #ff0000''
            @ '';\<newline>        --color-secondary: #00ff00''
            @ '';\<newline>        --color-accent: #0066cc''
            @ '';\<newline>        --color-text: #333;\<newline>        --color-background: #fff;\<newline>''
            @ ''        --font-heading: Arial, undefined;\<newline>''
            @ ''        --font-body: Arial, undefined;\<newline>''
            @ css_rules)"
proof -
  have f: "fonts (design example_site) = []" by (simp add: example_site_def)
  obtain a where a: "analyzeDesign (\<lambda>n. []) example_parse example_site CallThrows = Inr a"
    and p: "a_colors a
              = \<lparr> primary = ''#ff0000'', secondary = ''#00ff00'', accent = ''#0066cc'',
                  all_colors =
                    [\<lparr> original = ''rgb(255, 0, 0)'', hex_value = ''#ff0000'',
                       usage = ''accent'' \<rparr>,
                     \<lparr> original = ''#00ff00'', hex_value = ''#00ff00'',
                       usage = ''accent'' \<rparr>] \<rparr>"
    by (simp add: analyzeDesign_def example_site_def example_colors_analysis)
  from empty_fonts_render_undefined [OF f a] a p f show ?thesis by simp
qed

section \<open>Store creation\<close>

text \<open>
  C4 fails on the code for a template id of the catalog: the entry found has no
  \<^verbatim>\<open>customizations\<close>, \<open>createStore\<close> reads \<^verbatim>\<open>template.customizations.components\<close> of it
  and throws a TypeError, whatever customizations and store info were supplied; no
  store record is built.
\<close>

theorem createStore_catalog_raises:
  assumes "templateId req = Some t" and "t = ''modern'' \<or> t = ''minimal''"
  shows "createStore now saved req = Inl TypeError"
proof -
  from assms obtain entry
    where "resolve_template now (templateId req) (customizations req) = Inr (Catalog entry)"
    by (auto simp: resolve_template_def loadTemplates_def)
  then show ?thesis
    by (simp add: createStore_def Let_def template_customizations_def split: option.split)
qed

text \<open>C4 at a request for the template \<^verbatim>\<open>modern\<close> with colours, fonts and a theme
  supplied.\<close>

theorem createStore_catalog_raises_witness:
  "templateId example_request = Some ''modern''
   \<and> createStore 1700000000000 True example_request = Inl TypeError"
  using createStore_catalog_raises [of example_request "''modern''" 1700000000000 True]
  by (simp add: example_request_def)

text \<open>
  Without a template id, and with customizations that carry colours, typography and
  layout, the store record is built from a generated template: the supplied colours,
  the supplied fonts or else the typography, the supplied theme or else \<^verbatim>\<open>light\<close>, and
  the status \<^verbatim>\<open>draft\<close>.
\<close>

lemma createStore_generated:
  assumes "templateId req = None"
    and "cz_colors (customizations req) = Some c"
    and "cz_typography (customizations req) = Some ty"
    and "cz_layout (customizations req) = Some l"
  shows "\<exists>st. createStore now True req = Inr st
           \<and> s_colors st = c
           \<and> s_fonts st = (case cz_fonts (customizations req) of
                              Some f \<Rightarrow> SuppliedFonts f
                            | None \<Rightarrow> TemplateTypography ty)
           \<and> s_theme st = or_default (cz_theme (customizations req)) ''light''
           \<and> s_layout st = ''single-column''
           \<and> s_status st = ''draft''"
  using assms
  by (simp add: createStore_def Let_def resolve_template_def as_analysis_def
      template_customizations_def generateTemplate_def split: option.split)

end
